theory Spec2Isabelle
  imports Main "HOL-Library.Word"
begin

unbundle bit_operations_syntax

section \<open>Bytes, strings and UTF-8\<close>

text \<open>
  Go's \<^verbatim>\<open>byte\<close> is an 8-bit word, a \<^verbatim>\<open>[]byte\<close> and a \<^verbatim>\<open>string\<close> are lists of
  bytes (\<^verbatim>\<open>len\<close> counts bytes), a \<^verbatim>\<open>rune\<close> is an integer code point.
\<close>

type_synonym byte = "8 word"
type_synonym rune = int
type_synonym u64 = "64 word"

text \<open>Modelled from the spec: the control characters of package \<^verbatim>\<open>ansi\<close> that the driver
  names. The package is not among the source files; the values are those of the C0 and C1
  sets of ECMA-48 (\<^verbatim>\<open>ESC\<close> is \<^verbatim>\<open>0x1B\<close>, the 8-bit introducers lie from \<^verbatim>\<open>0x80\<close> on).\<close>

definition BEL :: byte where "BEL = 0x07"
definition ESC :: byte where "ESC = 0x1B"
definition US :: byte where "US = 0x1F"
definition SP :: byte where "SP = 0x20"
definition DEL :: byte where "DEL = 0x7F"
definition SS3 :: byte where "SS3 = 0x8F"
definition DCS :: byte where "DCS = 0x90"
definition CSI :: byte where "CSI = 0x9B"
definition ST :: byte where "ST = 0x9C"
definition OSC :: byte where "OSC = 0x9D"
definition APC :: byte where "APC = 0x9F"

lemmas ctrl_defs = BEL_def ESC_def US_def SP_def DEL_def SS3_def DCS_def CSI_def ST_def
  OSC_def APC_def

text \<open>
  \<^verbatim>\<open>string(b)\<close> for a byte \<^verbatim>\<open>b\<close>: Go converts an integer to the UTF-8 encoding of the
  code point of that value, so a byte from \<^verbatim>\<open>0x80\<close> on becomes two bytes.
\<close>

definition string_of_byte :: "byte \<Rightarrow> byte list" where
  "string_of_byte b =
     (if b < 0x80 then [b] else [0xC0 OR drop_bit 6 b, 0x80 OR (b AND 0x3F)])"

text \<open>\<^verbatim>\<open>utf8.RuneError\<close>, \<^verbatim>\<open>utf8.RuneStart\<close>, \<^verbatim>\<open>utf8.ValidRune\<close> and \<^verbatim>\<open>utf8.DecodeRune\<close>
  of Go's standard library.\<close>

definition RuneError :: rune where "RuneError = 0xFFFD"

definition RuneStart :: "byte \<Rightarrow> bool" where
  "RuneStart b = (b AND 0xC0 \<noteq> 0x80)"

definition ValidRune :: "rune \<Rightarrow> bool" where
  "ValidRune r = ((0 \<le> r \<and> r < 0xD800) \<or> (0xDFFF < r \<and> r \<le> 0x10FFFF))"

definition cont :: "byte \<Rightarrow> bool" where
  "cont b = (0x80 \<le> b \<and> b \<le> 0xBF)"

definition low6 :: "byte \<Rightarrow> int" where
  "low6 b = uint (b AND 0x3F)"

text \<open>The accepted range of the second byte, by the first byte (the table \<^verbatim>\<open>acceptRanges\<close>).\<close>

definition accept2 :: "byte \<Rightarrow> byte \<Rightarrow> bool" where
  "accept2 p0 b1 =
     (if p0 = 0xE0 then 0xA0 \<le> b1 \<and> b1 \<le> 0xBF
      else if p0 = 0xED then 0x80 \<le> b1 \<and> b1 \<le> 0x9F
      else if p0 = 0xF0 then 0x90 \<le> b1 \<and> b1 \<le> 0xBF
      else if p0 = 0xF4 then 0x80 \<le> b1 \<and> b1 \<le> 0x8F
      else cont b1)"

text \<open>The length of the sequence a first byte announces; 1 for ASCII and for an invalid
  first byte.\<close>

definition seqlen :: "byte \<Rightarrow> nat" where
  "seqlen p0 =
     (if p0 < 0xC2 then 1 else if p0 < 0xE0 then 2 else if p0 < 0xF0 then 3
      else if p0 < 0xF5 then 4 else 1)"

fun DecodeRune :: "byte list \<Rightarrow> rune \<times> nat" where
  "DecodeRune [] = (RuneError, 0)"
| "DecodeRune (p0 # ps) =
     (if p0 < 0x80 then (uint p0, 1)
      else if seqlen p0 = 1 then (RuneError, 1)
      else if length ps + 1 < seqlen p0 then (RuneError, 1)
      else if accept2 p0 (ps ! 0) then
        (if seqlen p0 = 2 then (uint (p0 AND 0x1F) * 64 + low6 (ps ! 0), 2)
         else if cont (ps ! 1) then
           (if seqlen p0 = 3
            then (uint (p0 AND 0x0F) * 4096 + low6 (ps ! 0) * 64 + low6 (ps ! 1), 3)
            else if cont (ps ! 2)
            then (uint (p0 AND 0x07) * 262144 + low6 (ps ! 0) * 4096 + low6 (ps ! 1) * 64
                    + low6 (ps ! 2), 4)
            else (RuneError, 1))
         else (RuneError, 1))
      else (RuneError, 1))"

lemma DecodeRune_width_pos: "xs \<noteq> [] \<Longrightarrow> 0 < snd (DecodeRune xs)"
  by (cases xs) auto

section \<open>Events and the parts of the driver that come from other packages\<close>

text \<open>How a call can fail: a run-time panic (an index out of range), or an error of the byte
  source.\<close>

datatype error = Panic | SourceError

text \<open>Modelled from the spec: \<^verbatim>\<open>input.KeyEvent\<close> and its action type, which are not among the
  source files. The fields are those the driver reads and writes (section 3 of the
  specification: symbol, runes, alternate runes, modifiers, action with Press as default);
  the modifier mask and the key symbol are integers. The zero value is what
  \<^verbatim>\<open>input.KeyEvent{}\<close> and a failed map lookup give.\<close>

datatype KeyAction = KeyPress | KeyRepeat | KeyRelease

record KeyEvent =
  Sym :: int
  Runes :: "rune list"
  AltRunes :: "rune list"
  Mod :: int
  Action :: KeyAction

definition zeroKey :: KeyEvent where
  "zeroKey = \<lparr>Sym = 0, Runes = [], AltRunes = [], Mod = 0, Action = KeyPress\<rparr>"

text \<open>The events of the ANSI driver. The payloads of the mouse and colour events are built by
  functions outside the driver; their types are left open.\<close>

datatype ('m, 'c) event =
    Key KeyEvent
  | Unknown "byte list"
  | Mouse 'm
  | FgColor 'c
  | BgColor 'c
  | CursorColor 'c

text \<open>
  What the driver takes from elsewhere: its key table (filled by \<^verbatim>\<open>registerKeys\<close>), the
  modifier bit \<^verbatim>\<open>input.Alt\<close>, the Kitty tables \<^verbatim>\<open>kittyKeyMap\<close> and \<^verbatim>\<open>fromKittyMod\<close>, the
  mouse decoders, \<^verbatim>\<open>xParseColor\<close>, and the accessors of \<^verbatim>\<open>ansi.CsiSequence\<close>,
  \<^verbatim>\<open>ansi.OscSequence\<close> and \<^verbatim>\<open>ansi.Params\<close>. None of them is defined in the source files, so
  every function below takes them as a parameter. A parameter list is a list of
  parameters, each a list of sub-values of Go's type \<^verbatim>\<open>uint\<close>, taken as 64 bits wide (as
  \<^verbatim>\<open>int\<close> is): \<^verbatim>\<open>int(v)\<close> keeps the bits of \<^verbatim>\<open>v\<close>, so it is \<open>sint v\<close>, negative from \<open>2^63\<close> on,
  and \<^verbatim>\<open>v - 1\<close> wraps around.
\<close>

record ('m, 'c) env =
  table :: "byte list \<rightharpoonup> KeyEvent"
  modAlt :: int
  kittyKeyMap :: "int \<rightharpoonup> int"
  fromKittyMod :: "int \<Rightarrow> int"
  parseX10MouseEvent :: "byte list \<Rightarrow> ('m, 'c) event"
  parseSGRMouseEvent :: "byte list \<Rightarrow> ('m, 'c) event"
  xParseColor :: "byte list \<Rightarrow> 'c"
  csiInitial :: "byte list \<Rightarrow> byte"
  csiCommand :: "byte list \<Rightarrow> byte"
  csiParams :: "byte list \<Rightarrow> byte list"
  ansiParams :: "byte list \<Rightarrow> u64 list list"
  oscIdentifier :: "byte list \<Rightarrow> byte list"
  oscData :: "byte list \<Rightarrow> byte list"

text \<open>\<^verbatim>\<open>d.table[s]\<close> read as a value: the zero key when \<^verbatim>\<open>s\<close> is not a key of the map.\<close>

definition lookupKey :: "('m, 'c) env \<Rightarrow> byte list \<Rightarrow> KeyEvent" where
  "lookupKey d s = (case table d s of Some k \<Rightarrow> k | None \<Rightarrow> zeroKey)"

text \<open>\<^verbatim>\<open>if alt { k.Mod |= input.Alt }\<close>\<close>

definition withAlt :: "('m, 'c) env \<Rightarrow> bool \<Rightarrow> KeyEvent \<Rightarrow> KeyEvent" where
  "withAlt d alt k = (if alt then k\<lparr>Mod := Mod k OR modAlt d\<rparr> else k)"

text \<open>The event of an unfinished sequence: the table's key (with Alt when asked), else
  \<^verbatim>\<open>UnknownEvent(seq)\<close>.\<close>

definition tableOrUnknown :: "('m, 'c) env \<Rightarrow> bool \<Rightarrow> byte list \<Rightarrow> ('m, 'c) event" where
  "tableOrUnknown d alt seq =
     (case table d seq of Some key \<Rightarrow> Key (withAlt d alt key) | None \<Rightarrow> Unknown seq)"

section \<open>The sequence parsers\<close>

text \<open>
  Every parser starts with the same two statements: it takes the 8-bit introducer or
  \<^verbatim>\<open>ESC\<close> at \<^verbatim>\<open>p[i]\<close>, then the 7-bit introducer after an \<^verbatim>\<open>ESC\<close>. Reading \<^verbatim>\<open>p[i]\<close> beyond
  the slice, or \<^verbatim>\<open>p[i-1]\<close> at \<^verbatim>\<open>i = 0\<close>, panics.
\<close>

definition scanIntro ::
  "byte \<Rightarrow> byte \<Rightarrow> nat \<Rightarrow> byte list \<Rightarrow> error + (nat \<times> byte list)" where
  "scanIntro intro8 intro7 i p =
     (if length p \<le> i then Inl Panic
      else
        let (i1, seq1) =
              (if p ! i = intro8 \<or> p ! i = ESC then (i + 1, string_of_byte (p ! i))
               else (i, []))
        in if i1 < length p \<and> i1 = 0 then Inl Panic
           else if i1 < length p \<and> p ! (i1 - 1) = ESC \<and> p ! i1 = intro7
           then Inr (i1 + 1, seq1 @ string_of_byte (p ! i1))
           else Inr (i1, seq1))"

text \<open>\<^verbatim>\<open>for ; i < len(p) && ok(p[i]); i++ { seq += string(p[i]) }\<close>\<close>

function scan :: "(byte \<Rightarrow> bool) \<Rightarrow> byte list \<Rightarrow> nat \<Rightarrow> byte list \<Rightarrow> nat \<times> byte list" where
  "scan ok p i seq =
     (if i < length p \<and> ok (p ! i) then scan ok p (i + 1) (seq @ string_of_byte (p ! i))
      else (i, seq))"
  by pat_completeness auto
termination
  by (relation "measure (\<lambda>(ok, p, i, seq). length p - i)") auto

declare scan.simps [simp del]

definition isParam :: "byte \<Rightarrow> bool" where
  "isParam b = (0x30 \<le> b \<and> b \<le> 0x3F)"

definition isIntermediate :: "byte \<Rightarrow> bool" where
  "isIntermediate b = (0x20 \<le> b \<and> b \<le> 0x2F)"

text \<open>\<^verbatim>\<open>rune(int(v))\<close> and \<^verbatim>\<open>rune(v)\<close> for a sub-value \<^verbatim>\<open>v\<close>: the conversion to a 32-bit signed
  integer keeps the low 32 bits.\<close>

definition rune32 :: "u64 \<Rightarrow> rune" where
  "rune32 v = sint (ucast v :: 32 word)"

text \<open>The Kitty keyboard branch of \<^verbatim>\<open>parseCsi\<close>, one definition for each of its three
  \<^verbatim>\<open>if len(params) > n\<close> blocks. \<^verbatim>\<open>params[n][0]\<close> panics on an empty parameter.\<close>

definition kittyCode :: "('m, 'c) env \<Rightarrow> u64 list list \<Rightarrow> KeyEvent \<Rightarrow> error + KeyEvent" where
  "kittyCode d params key =
     (if 0 < length params then
        (case params ! 0 of
           [] \<Rightarrow> Inl Panic
         | code # rest \<Rightarrow>
             (case kittyKeyMap d (sint code) of
                Some ks \<Rightarrow> Inr (key\<lparr>Sym := ks\<rparr>)
              | None \<Rightarrow>
                  let r = (if ValidRune (rune32 code) then rune32 code else RuneError);
                      key1 = key\<lparr>Runes := [r]\<rparr>
                  in if 1 < length (params ! 0) then
                       (if ValidRune (rune32 (params ! 0 ! 1))
                        then Inr (key1\<lparr>AltRunes := [rune32 (params ! 0 ! 1)]\<rparr>)
                        else Inr key1)
                     else Inr key1))
      else Inr key)"

definition kittyMod :: "('m, 'c) env \<Rightarrow> u64 list list \<Rightarrow> KeyEvent \<Rightarrow> error + KeyEvent" where
  "kittyMod d params key =
     (if 1 < length params then
        (case params ! 1 of
           [] \<Rightarrow> Inl Panic
         | m # rest \<Rightarrow>
             let key1 = (if 1 < sint m then key\<lparr>Mod := fromKittyMod d (sint (m - 1))\<rparr> else key)
             in if 1 < length (params ! 1) then
                  (if sint (params ! 1 ! 1) = 0 \<or> sint (params ! 1 ! 1) = 1
                   then Inr (key1\<lparr>Action := KeyPress\<rparr>)
                   else if sint (params ! 1 ! 1) = 2 then Inr (key1\<lparr>Action := KeyRepeat\<rparr>)
                   else if sint (params ! 1 ! 1) = 3 then Inr (key1\<lparr>Action := KeyRelease\<rparr>)
                   else Inr key1)
                else Inr key1)
      else Inr key)"

definition kittyBase :: "u64 list list \<Rightarrow> KeyEvent \<Rightarrow> error + KeyEvent" where
  "kittyBase params key =
     (if 2 < length params then
        (case params ! 2 of
           [] \<Rightarrow> Inl Panic
         | c # rest \<Rightarrow>
             Inr (key\<lparr>AltRunes := [if ValidRune (rune32 c) then rune32 c else RuneError]\<rparr>))
      else Inr key)"

definition kitty :: "('m, 'c) env \<Rightarrow> byte list \<Rightarrow> error + (nat \<times> ('m, 'c) event)" where
  "kitty d seq =
     (let params = ansiParams d (csiParams d seq) in
      case kittyCode d params zeroKey of
        Inl e \<Rightarrow> Inl e
      | Inr key1 \<Rightarrow>
          (case kittyMod d params key1 of
             Inl e \<Rightarrow> Inl e
           | Inr key2 \<Rightarrow>
               (case kittyBase params key2 of
                  Inl e \<Rightarrow> Inl e
                | Inr key3 \<Rightarrow> Inr (length seq, Key key3))))"

text \<open>The \<^verbatim>\<open>switch\<close> of \<^verbatim>\<open>parseCsi\<close> on a complete sequence that is not a key of the table;
  \<^verbatim>\<open>i\<close> is the index of the final byte.\<close>

definition csiSwitch ::
  "('m, 'c) env \<Rightarrow> byte list \<Rightarrow> nat \<Rightarrow> byte list \<Rightarrow> error + (nat \<times> ('m, 'c) event)" where
  "csiSwitch d p i seq =
     (if seq = [ESC, 0x5B, 0x4D] \<and> i + 3 < length p
      then Inr (length seq + 3, parseX10MouseEvent d (seq @ [p ! (i + 1), p ! (i + 2)]))
      else if csiInitial d seq = 0x3C \<and> (csiCommand d seq = 0x6D \<or> csiCommand d seq = 0x4D)
      then Inr (length seq, parseSGRMouseEvent d seq)
      else if csiInitial d seq = 0 \<and> csiCommand d seq = 0x75
      then kitty d seq
      else Inr (length seq, Unknown seq))"

definition parseCsi ::
  "('m, 'c) env \<Rightarrow> nat \<Rightarrow> byte list \<Rightarrow> bool \<Rightarrow> error + (nat \<times> ('m, 'c) event)" where
  "parseCsi d i0 p alt =
     (case scanIntro CSI 0x5B i0 p of
        Inl e \<Rightarrow> Inl e
      | Inr (i1, seq1) \<Rightarrow>
          let (i2, seq2) = scan isParam p i1 seq1;
              (i, seq) = scan isIntermediate p i2 seq2
          in if length p \<le> i \<or> p ! i < 0x40 \<or> 0x7E < p ! i
             then Inr (length seq, tableOrUnknown d alt seq)
             else
               (case table d (seq @ string_of_byte (p ! i)) of
                  Some k \<Rightarrow> Inr (length (seq @ string_of_byte (p ! i)), Key k)
                | None \<Rightarrow> csiSwitch d p i (seq @ string_of_byte (p ! i))))"

definition parseSs3 ::
  "('m, 'c) env \<Rightarrow> nat \<Rightarrow> byte list \<Rightarrow> bool \<Rightarrow> error + (nat \<times> ('m, 'c) event)" where
  "parseSs3 d i0 p alt =
     (case scanIntro SS3 0x4F i0 p of
        Inl e \<Rightarrow> Inl e
      | Inr (i, seq) \<Rightarrow>
          if length p \<le> i \<or> p ! i < 0x21 \<or> 0x7E < p ! i
          then Inr (length seq, tableOrUnknown d alt seq)
          else
            (case table d (seq @ string_of_byte (p ! i)) of
               Some k \<Rightarrow> Inr (length (seq @ string_of_byte (p ! i)), Key (withAlt d alt k))
             | None \<Rightarrow>
                 Inr (length (seq @ string_of_byte (p ! i)),
                      Unknown (seq @ string_of_byte (p ! i)))))"

text \<open>The check for a 7-bit string terminator \<^verbatim>\<open>ESC \\<close> after the terminating byte at
  \<^verbatim>\<open>p[i]\<close> has been added to \<^verbatim>\<open>seq\<close>.\<close>

definition addST :: "byte list \<Rightarrow> nat \<Rightarrow> byte list \<Rightarrow> byte list" where
  "addST p i seq =
     (if i + 1 < length p \<and> p ! i = ESC \<and> p ! (i + 1) = 0x5C
      then seq @ string_of_byte (p ! (i + 1)) else seq)"

definition oscBody :: "byte \<Rightarrow> bool" where
  "oscBody b = (b \<noteq> BEL \<and> b \<noteq> ESC \<and> b \<noteq> ST)"

definition parseOsc ::
  "('m, 'c) env \<Rightarrow> nat \<Rightarrow> byte list \<Rightarrow> bool \<Rightarrow> error + (nat \<times> ('m, 'c) event)" where
  "parseOsc d i0 p alt =
     (case scanIntro OSC 0x5D i0 p of
        Inl e \<Rightarrow> Inl e
      | Inr (i1, seq1) \<Rightarrow>
          let (i, seq2) = scan oscBody p i1 seq1
          in if length p \<le> i then Inr (length seq2, Unknown seq2)
             else
               let seq = addST p i (seq2 @ string_of_byte (p ! i))
               in if oscIdentifier d seq = [0x31, 0x30]
                  then Inr (length seq, FgColor (xParseColor d (oscData d seq)))
                  else if oscIdentifier d seq = [0x31, 0x31]
                  then Inr (length seq, BgColor (xParseColor d (oscData d seq)))
                  else if oscIdentifier d seq = [0x31, 0x32]
                  then Inr (length seq, CursorColor (xParseColor d (oscData d seq)))
                  else Inr (length seq, Unknown seq))"

definition ctrlBody :: "byte \<Rightarrow> bool" where
  "ctrlBody b = (b \<noteq> ST \<and> b \<noteq> ESC)"

definition parseCtrl ::
  "byte \<Rightarrow> byte \<Rightarrow> nat \<Rightarrow> byte list \<Rightarrow> bool \<Rightarrow> error + (nat \<times> ('m, 'c) event)" where
  "parseCtrl intro8 intro7 i0 p alt =
     (case scanIntro intro8 intro7 i0 p of
        Inl e \<Rightarrow> Inl e
      | Inr (i1, seq1) \<Rightarrow>
          let (i, seq2) = scan ctrlBody p i1 seq1
          in if length p \<le> i then Inr (length seq2, Unknown seq2)
             else Inr (length (addST p i (seq2 @ string_of_byte (p ! i))),
                       Unknown (addST p i (seq2 @ string_of_byte (p ! i)))))"

definition parseDcs :: "nat \<Rightarrow> byte list \<Rightarrow> bool \<Rightarrow> error + (nat \<times> ('m, 'c) event)" where
  "parseDcs i p alt = parseCtrl DCS 0x50 i p alt"

definition parseApc :: "nat \<Rightarrow> byte list \<Rightarrow> bool \<Rightarrow> error + (nat \<times> ('m, 'c) event)" where
  "parseApc i p alt = parseCtrl APC 0x5F i p alt"

section \<open>The dispatch loop of \<^verbatim>\<open>peekInput\<close>\<close>

text \<open>\<^verbatim>\<open>handleSeq\<close>: run a parser at \<^verbatim>\<open>i\<close>, add its count to the index and its event to the
  events.\<close>

definition handleSeq ::
  "(nat \<Rightarrow> byte list \<Rightarrow> bool \<Rightarrow> error + (nat \<times> ('m, 'c) event)) \<Rightarrow> nat \<Rightarrow> byte list \<Rightarrow> bool
     \<Rightarrow> ('m, 'c) event list \<Rightarrow> error + (nat \<times> ('m, 'c) event list)" where
  "handleSeq seqFn i p alt ev =
     (case seqFn i p alt of Inl e \<Rightarrow> Inl e | Inr (n, e) \<Rightarrow> Inr (i + n, ev @ [e]))"

text \<open>The rune-collection loop:
  \<^verbatim>\<open>for rw := 0; i < len(p); i += rw { r, rw = utf8.DecodeRune(p[i:]); if ... { break }; ... }\<close>\<close>

function collectRunes :: "byte list \<Rightarrow> nat \<Rightarrow> rune list \<Rightarrow> nat \<times> rune list" where
  "collectRunes p i rs =
     (if i < length p then
        (if fst (DecodeRune (drop i p)) = RuneError \<or> fst (DecodeRune (drop i p)) \<le> uint US
            \<or> fst (DecodeRune (drop i p)) = uint DEL \<or> fst (DecodeRune (drop i p)) = uint SP
         then (i, rs)
         else collectRunes p (i + snd (DecodeRune (drop i p))) (rs @ [fst (DecodeRune (drop i p))]))
      else (i, rs))"
  by pat_completeness auto
termination
proof (relation "measure (\<lambda>(p, i, rs). length p - i)")
  fix p :: "byte list" and i :: nat and rs :: "rune list"
  assume "i < length p"
  then have "0 < snd (DecodeRune (drop i p))"
    by (intro DecodeRune_width_pos) simp
  with \<open>i < length p\<close>
  show "((p, i + snd (DecodeRune (drop i p)), rs @ [fst (DecodeRune (drop i p))]), (p, i, rs))
          \<in> measure (\<lambda>(p, i, rs). length p - i)"
    by simp
qed simp

declare collectRunes.simps [simp del]

text \<open>The two \<^verbatim>\<open>if\<close> branches that end the loop body (lines 285 to 314): a control byte is
  looked up in the table, a UTF-8 start byte opens the rune loop, any other byte leaves
  the index and the events as they are.\<close>

definition loopTail ::
  "('m, 'c) env \<Rightarrow> byte list \<Rightarrow> nat \<Rightarrow> bool \<Rightarrow> byte \<Rightarrow> ('m, 'c) event list
     \<Rightarrow> nat \<times> ('m, 'c) event list" where
  "loopTail d p i alt b ev =
     (if b \<le> US \<or> b = DEL \<or> b = SP
      then (i + 1, ev @ [Key (withAlt d alt (lookupKey d (string_of_byte b)))])
      else if RuneStart b
      then (fst (collectRunes p i []),
            ev @ [Key (withAlt d alt (zeroKey\<lparr>Runes := snd (collectRunes p i [])\<rparr>))])
      else (i, ev))"

text \<open>
  One pass through the body of \<^verbatim>\<open>for i < len(p)\<close>, from the label \<^verbatim>\<open>begin\<close>: \<^verbatim>\<open>b\<close> is the
  byte under inspection and \<^verbatim>\<open>bb\<close> is \<^verbatim>\<open>bufferedBytes\<close>. The \<^verbatim>\<open>goto begin\<close> of the Alt case is
  the recursive call. The \<^verbatim>\<open>break\<close> of the \<^verbatim>\<open>ESC\<close> case leaves the \<^verbatim>\<open>switch\<close> only, and the
  \<^verbatim>\<open>DCS\<close> case has no \<^verbatim>\<open>continue\<close>: both go on to the final branches.
\<close>

function dispatch ::
  "('m, 'c) env \<Rightarrow> byte list \<Rightarrow> nat \<Rightarrow> nat \<Rightarrow> bool \<Rightarrow> byte \<Rightarrow> ('m, 'c) event list
     \<Rightarrow> error + (nat \<times> ('m, 'c) event list)" where
  "dispatch d p bb i alt b ev =
     (if b = ESC then
        (if bb = 1 then Inr (i + 1, ev @ [Key (lookupKey d [ESC])])
         else if length p \<le> i + 1 then Inr (loopTail d p i alt b ev)
         else if p ! (i + 1) = 0x4F then handleSeq (parseSs3 d) i p alt ev
         else if p ! (i + 1) = 0x50 then handleSeq parseDcs i p alt ev
         else if p ! (i + 1) = 0x5B then handleSeq (parseCsi d) i p alt ev
         else if p ! (i + 1) = 0x5D then handleSeq (parseOsc d) i p alt ev
         else if p ! (i + 1) = 0x5F then handleSeq parseApc i p alt ev
         else dispatch d p bb (i + 1) True (p ! (i + 1)) ev)
      else if b = SS3 then handleSeq (parseSs3 d) i p alt ev
      else if b = DCS then
        (case handleSeq parseDcs i p alt ev of
           Inl e \<Rightarrow> Inl e
         | Inr (i', ev') \<Rightarrow> Inr (loopTail d p i' alt b ev'))
      else if b = CSI then handleSeq (parseCsi d) i p alt ev
      else if b = OSC then handleSeq (parseOsc d) i p alt ev
      else if b = APC then handleSeq parseApc i p alt ev
      else Inr (loopTail d p i alt b ev))"
  by pat_completeness auto
termination
  by (relation "measure (\<lambda>(d, p, bb, i, alt, b, ev). length p - i)") auto

declare dispatch.simps [simp del]

text \<open>The loop \<^verbatim>\<open>for i < len(p)\<close>. Nothing in the source bounds the number of passes, so the
  loop is a partial function: \<open>None\<close> is a run that does not return.\<close>

partial_function (option) peekLoop ::
  "('m, 'c) env \<Rightarrow> byte list \<Rightarrow> nat \<Rightarrow> nat \<Rightarrow> ('m, 'c) event list
     \<Rightarrow> (error + (nat \<times> ('m, 'c) event list)) option" where
  "peekLoop d p bb i ev =
     (if i < length p then
        (case dispatch d p bb i False (p ! i) ev of
           Inl e \<Rightarrow> Some (Inl e)
         | Inr r \<Rightarrow> peekLoop d p bb (fst r) (snd r))
      else Some (Inr (i, ev)))"

declare peekLoop.simps [code]

section \<open>The buffered reader, \<^verbatim>\<open>peekInput\<close>, \<^verbatim>\<open>ReadInput\<close> and \<^verbatim>\<open>PeekInput\<close>\<close>

text \<open>
  The \<^verbatim>\<open>bufio.Reader\<close> of the driver: the bytes it holds, and the chunks that the next reads
  of the underlying source will return (no chunk left: the source fails). \<^verbatim>\<open>Peek(1)\<close> fills
  an empty buffer from the source and consumes nothing, \<^verbatim>\<open>Buffered()\<close> is the number of
  bytes held, \<^verbatim>\<open>Discard(n)\<close> skips \<^verbatim>\<open>n\<close> bytes, reading on when the buffer holds fewer.
\<close>

record reader =
  buffered :: "byte list"
  incoming :: "byte list list"

fun fill :: "byte list list \<Rightarrow> reader option" where
  "fill [] = None"
| "fill (c # cs) = (if c = [] then fill cs else Some \<lparr>buffered = c, incoming = cs\<rparr>)"

definition Peek1 :: "reader \<Rightarrow> reader option" where
  "Peek1 rd = (if buffered rd = [] then fill (incoming rd) else Some rd)"




definition drained :: reader where
  "drained = \<lparr>buffered = [], incoming = []\<rparr>"

text \<open>\<^verbatim>\<open>peekInput\<close>: the result and the reader after the call. \<open>None\<close>: the loop does not
  return.\<close>

definition peekInput ::
  "('m, 'c) env \<Rightarrow> reader \<Rightarrow> ((error + (nat \<times> ('m, 'c) event list)) \<times> reader) option" where
  "peekInput d rd =
     (case Peek1 rd of
        None \<Rightarrow> Some (Inl SourceError, drained)
      | Some rd1 \<Rightarrow>
          (case table d (buffered rd1) of
             Some k \<Rightarrow> Some (Inr (length (buffered rd1), [Key k]), rd1)
           | None \<Rightarrow>
               (case peekLoop d (buffered rd1) (length (buffered rd1)) 0 [] of
                  None \<Rightarrow> None
                | Some r \<Rightarrow> Some (r, rd1))))"



text \<open>The decoder on a buffer that is already held: the count and the events of
  \<^verbatim>\<open>peekInput\<close>.\<close>

definition decode ::
  "('m, 'c) env \<Rightarrow> byte list \<Rightarrow> (error + (nat \<times> ('m, 'c) event list)) option" where
  "decode d p =
     (case peekInput d \<lparr>buffered = p, incoming = []\<rparr> of
        None \<Rightarrow> None
      | Some (r, rd1) \<Rightarrow> Some r)"

section \<open>\<^verbatim>\<open>Driver.readEvents\<close> of package \<^verbatim>\<open>input\<close>\<close>

text \<open>
  The events that \<^verbatim>\<open>readEvents\<close> tells apart; \<open>OtherEvent\<close> stands for every other event the
  parser may return (keys, mouse, colours). The type \<open>'k\<close> is the key type of the parser.
\<close>

datatype ('k, 'o) ievent =
    KeyDownEvent 'k
  | UnknownCsiEvent "byte list"
  | UnknownSs3Event "byte list"
  | UnknownEvent "byte list"
  | PasteStartEvent
  | PasteEndEvent
  | PasteEvent "rune list"
  | MultiEvent "('k, 'o) ievent list"
  | OtherEvent 'o

text \<open>The two methods of \<^verbatim>\<open>EventParser\<close> that \<^verbatim>\<open>readEvents\<close> calls. They are not defined in the
  source files and stay parameters; a \<^verbatim>\<open>nil\<close> event is \<open>None\<close>.\<close>

record ('k, 'o) EventParser =
  ParseSequence :: "byte list \<Rightarrow> nat \<times> ('k, 'o) ievent option"
  LookupSequence :: "byte list \<Rightarrow> 'k option"

text \<open>The driver's state: the paste buffer (\<open>None\<close> is \<^verbatim>\<open>nil\<close>, bracketed paste off) and the
  read buffer \<^verbatim>\<open>buf [256]byte\<close>.\<close>

record Driver =
  paste :: "byte list option"
  buf :: "byte list"

text \<open>\<^verbatim>\<open>for len(d.paste) > 0 { r, w := utf8.DecodeRune(d.paste); ...; d.paste = d.paste[w:] }\<close>\<close>

function decodePaste :: "byte list \<Rightarrow> rune list \<Rightarrow> rune list" where
  "decodePaste bs rs =
     (if 0 < length bs then
        decodePaste (drop (snd (DecodeRune bs)) bs)
          (if fst (DecodeRune bs) \<noteq> RuneError then rs @ [fst (DecodeRune bs)] else rs)
      else rs)"
  by pat_completeness auto
termination
proof (relation "measure (\<lambda>(bs, rs). length bs)")
  fix bs :: "byte list" and rs :: "rune list"
  assume "0 < length bs"
  then have "0 < snd (DecodeRune bs)"
    by (intro DecodeRune_width_pos) auto
  with \<open>0 < length bs\<close>
  show "((drop (snd (DecodeRune bs)) bs,
          if fst (DecodeRune bs) \<noteq> RuneError then rs @ [fst (DecodeRune bs)] else rs), (bs, rs))
          \<in> measure (\<lambda>(bs, rs). length bs)"
    by simp
qed simp

declare decodePaste.simps [simp del]

fun isPasteEnd :: "('k, 'o) ievent option \<Rightarrow> bool" where
  "isPasteEnd (Some PasteEndEvent) = True"
| "isPasteEnd _ = False"

text \<open>\<^verbatim>\<open>d.parser.LookupSequence(string(buf[i : i+nb]))\<close> on an unknown event: the slice may
  reach up to the capacity of \<^verbatim>\<open>buf\<close>, the whole array, and panics beyond it.\<close>

definition relookup ::
  "('k, 'o) EventParser \<Rightarrow> byte list \<Rightarrow> nat \<Rightarrow> nat \<Rightarrow> ('k, 'o) ievent \<Rightarrow> error + ('k, 'o) ievent" where
  "relookup P dbuf i nb ev =
     (if i + nb \<le> length dbuf then
        (case LookupSequence P (take nb (drop i dbuf)) of
           Some k \<Rightarrow> Inr (KeyDownEvent k)
         | None \<Rightarrow> Inr ev)
      else Inl Panic)"

text \<open>The \<^verbatim>\<open>switch ev.(type)\<close> and the append that follows it, for an event that is not
  \<^verbatim>\<open>nil\<close>: the new paste buffer and the events added to \<^verbatim>\<open>e\<close>.\<close>

fun switchEvent ::
  "('k, 'o) EventParser \<Rightarrow> byte list \<Rightarrow> nat \<Rightarrow> nat \<Rightarrow> byte list option \<Rightarrow> ('k, 'o) ievent
     \<Rightarrow> error + (byte list option \<times> ('k, 'o) ievent list)" where
  "switchEvent P dbuf i nb pst (UnknownCsiEvent s) =
     (case relookup P dbuf i nb (UnknownCsiEvent s) of
        Inl err \<Rightarrow> Inl err | Inr ev \<Rightarrow> Inr (pst, [ev]))"
| "switchEvent P dbuf i nb pst (UnknownSs3Event s) =
     (case relookup P dbuf i nb (UnknownSs3Event s) of
        Inl err \<Rightarrow> Inl err | Inr ev \<Rightarrow> Inr (pst, [ev]))"
| "switchEvent P dbuf i nb pst (UnknownEvent s) =
     (case relookup P dbuf i nb (UnknownEvent s) of
        Inl err \<Rightarrow> Inl err | Inr ev \<Rightarrow> Inr (pst, [ev]))"
| "switchEvent P dbuf i nb pst PasteStartEvent = Inr (Some [], [PasteStartEvent])"
| "switchEvent P dbuf i nb pst PasteEndEvent =
     Inr (None, [PasteEvent (decodePaste (case pst of None \<Rightarrow> [] | Some acc \<Rightarrow> acc) []),
                 PasteEndEvent])"
| "switchEvent P dbuf i nb pst (MultiEvent mevs) = Inr (pst, mevs)"
| "switchEvent P dbuf i nb pst ev = Inr (pst, [ev])"

text \<open>The part of the loop body from the \<^verbatim>\<open>switch\<close> on: a \<^verbatim>\<open>nil\<close> event moves on by one
  byte, any other event by the parser's count.\<close>

definition readSwitch ::
  "('k, 'o) EventParser \<Rightarrow> byte list \<Rightarrow> nat \<Rightarrow> nat \<Rightarrow> byte list option \<Rightarrow> ('k, 'o) ievent list
     \<Rightarrow> ('k, 'o) ievent option \<Rightarrow> error + (nat \<times> byte list option \<times> ('k, 'o) ievent list)" where
  "readSwitch P dbuf i nb pst e ev =
     (case ev of
        None \<Rightarrow> Inr (i + 1, pst, e)
      | Some x \<Rightarrow>
          (case switchEvent P dbuf i nb pst x of
             Inl err \<Rightarrow> Inl err
           | Inr (pst', evs) \<Rightarrow> Inr (i + nb, pst', e @ evs)))"

text \<open>One pass through the body of \<^verbatim>\<open>for i < len(buf)\<close>; \<^verbatim>\<open>buf\<close> is the first \<open>n\<close> bytes of the
  array \<open>dbuf\<close>. The result is the next index, the paste buffer and the events so far.
  While the paste buffer is not \<^verbatim>\<open>nil\<close>, an event other than \<^verbatim>\<open>PasteEndEvent\<close> is dropped and
  the byte \<^verbatim>\<open>buf[i]\<close> goes to the paste buffer.\<close>

definition readStep ::
  "('k, 'o) EventParser \<Rightarrow> byte list \<Rightarrow> nat \<Rightarrow> nat \<Rightarrow> byte list option \<Rightarrow> ('k, 'o) ievent list
     \<Rightarrow> error + (nat \<times> byte list option \<times> ('k, 'o) ievent list)" where
  "readStep P dbuf n i pst e =
     (case ParseSequence P (drop i (take n dbuf)) of
        (nb, ev) \<Rightarrow>
          (case pst of
             Some acc \<Rightarrow>
               if isPasteEnd ev then readSwitch P dbuf i nb pst e ev
               else Inr (i + 1, Some (acc @ [dbuf ! i]), e)
           | None \<Rightarrow> readSwitch P dbuf i nb pst e ev))"

text \<open>The loop; a parser that returns a count of 0 with an event can keep it running for
  ever, which is the result \<open>None\<close>.\<close>

partial_function (option) readLoop ::
  "('k, 'o) EventParser \<Rightarrow> byte list \<Rightarrow> nat \<Rightarrow> nat \<Rightarrow> byte list option \<Rightarrow> ('k, 'o) ievent list
     \<Rightarrow> (error + (('k, 'o) ievent list \<times> byte list option)) option" where
  "readLoop P dbuf n i pst e =
     (if i < n then
        (case readStep P dbuf n i pst e of
           Inl err \<Rightarrow> Some (Inl err)
         | Inr r \<Rightarrow> readLoop P dbuf n (fst r) (fst (snd r)) (snd (snd r)))
      else Some (Inr (e, pst)))"

declare readLoop.simps [code]

text \<open>\<^verbatim>\<open>readEvents\<close>; \<open>rd\<close> is what \<^verbatim>\<open>d.rd.Read(d.buf[:])\<close> delivers: the bytes read into the
  front of the array, or \<open>None\<close> for an error.\<close>

definition readEvents ::
  "('k, 'o) EventParser \<Rightarrow> Driver \<Rightarrow> byte list option
     \<Rightarrow> ((error + ('k, 'o) ievent list) \<times> Driver) option" where
  "readEvents P d rd =
     (case rd of
        None \<Rightarrow> Some (Inl SourceError, d)
      | Some chunk \<Rightarrow>
          let dbuf = chunk @ drop (length chunk) (buf d) in
          (case LookupSequence P chunk of
             Some k \<Rightarrow> Some (Inr [KeyDownEvent k], d\<lparr>buf := dbuf\<rparr>)
           | None \<Rightarrow>
               (case readLoop P dbuf (length chunk) 0 (paste d) [] of
                  None \<Rightarrow> None
                | Some (Inl err) \<Rightarrow> Some (Inl err, d\<lparr>buf := dbuf\<rparr>)
                | Some (Inr (e, pst)) \<Rightarrow> Some (Inr e, \<lparr>paste = pst, buf = dbuf\<rparr>))))"

section \<open>A concrete driver and a concrete parser for the examples\<close>

definition upKey :: KeyEvent where "upKey = zeroKey\<lparr>Sym := 1\<rparr>"
definition escKey :: KeyEvent where "escKey = zeroKey\<lparr>Sym := 2\<rparr>"

text \<open>
  A driver whose table has two keys, Escape for \<^verbatim>\<open>ESC\<close> and cursor-up for \<^verbatim>\<open>ESC [ A\<close>. The
  decoders that live outside the driver hand back the bytes they are given (as a mouse
  event, or as the colour), so that an example shows what the driver passes to them; the
  identifier of an OSC sequence is the run of bytes between the two-byte introducer and the
  first semicolon, its data the bytes from there to the terminator.
\<close>

definition demoEnv :: "(byte list, byte list) env" where
  "demoEnv =
     \<lparr>table = [[0x1B] \<mapsto> escKey, [0x1B, 0x5B, 0x41] \<mapsto> upKey],
      modAlt = 2, kittyKeyMap = Map.empty, fromKittyMod = (\<lambda>m. m),
      parseX10MouseEvent = Mouse, parseSGRMouseEvent = Mouse, xParseColor = (\<lambda>s. s),
      csiInitial = (\<lambda>s. 0), csiCommand = last, csiParams = (\<lambda>s. s),
      ansiParams = (\<lambda>s. []),
      oscIdentifier = (\<lambda>s. takeWhile (\<lambda>b. b \<noteq> 0x3B) (drop 2 s)),
      oscData = (\<lambda>s. takeWhile oscBody (drop 1 (dropWhile (\<lambda>b. b \<noteq> 0x3B) s)))\<rparr>"

text \<open>The bracketed-paste markers \<^verbatim>\<open>ESC [ 200 ~\<close> and \<^verbatim>\<open>ESC [ 201 ~\<close>.\<close>

definition pasteStart :: "byte list" where
  "pasteStart = [0x1B, 0x5B, 0x32, 0x30, 0x30, 0x7E]"

definition pasteEnd :: "byte list" where
  "pasteEnd = [0x1B, 0x5B, 0x32, 0x30, 0x31, 0x7E]"

text \<open>A parser that knows the two paste markers and cursor-up, and takes any other byte as a
  key of one rune; its lookup table has cursor-up only.\<close>

definition demoParse :: "byte list \<Rightarrow> nat \<times> (KeyEvent, unit) ievent option" where
  "demoParse bs =
     (if take 6 bs = pasteStart then (6, Some PasteStartEvent)
      else if take 6 bs = pasteEnd then (6, Some PasteEndEvent)
      else if take 3 bs = [0x1B, 0x5B, 0x41] then (3, Some (KeyDownEvent upKey))
      else case bs of
             [] \<Rightarrow> (0, None)
           | b # rest \<Rightarrow> (1, Some (KeyDownEvent (zeroKey\<lparr>Runes := [uint b]\<rparr>))))"

definition demoParser :: "(KeyEvent, unit) EventParser" where
  "demoParser =
     \<lparr>ParseSequence = demoParse, LookupSequence = [[0x1B, 0x5B, 0x41] \<mapsto> upKey]\<rparr>"



text \<open>And with one that answers \<^verbatim>\<open>97;9223372036854775810\<close>, the second parameter being
  \<open>2^63 + 2\<close>.\<close>

definition hugeEnv :: "(byte list, byte list) env" where
  "hugeEnv = demoEnv\<lparr>ansiParams := (\<lambda>s. [[97], [9223372036854775810]])\<rparr>"




definition pasting :: Driver where
  "pasting = \<lparr>paste = Some [], buf = replicate 256 0\<rparr>"

section \<open>Notions used in the statements\<close>

text \<open>The string the parsers build from a run of bytes.\<close>

definition encode :: "byte list \<Rightarrow> byte list" where
  "encode bs = concat (map string_of_byte bs)"

text \<open>The test \<^verbatim>\<open>b <= ansi.US || b == ansi.DEL || b == ansi.SP\<close>.\<close>

definition isControl :: "byte \<Rightarrow> bool" where
  "isControl b = (b \<le> US \<or> b = DEL \<or> b = SP)"

text \<open>The key event of one byte below \<^verbatim>\<open>0x80\<close> met by the loop: a control byte is looked up
  in the table, any other byte is a key of one rune.\<close>

definition keyOf :: "('m, 'c) env \<Rightarrow> byte \<Rightarrow> KeyEvent" where
  "keyOf d b = (if isControl b then lookupKey d [b] else zeroKey\<lparr>Runes := [uint b]\<rparr>)"


section \<open>Properties of the scanning loops\<close>

lemma encode_ascii: "\<forall>b\<in>set bs. b < 0x80 \<Longrightarrow> encode bs = bs"
  by (induction bs) (auto simp: encode_def string_of_byte_def)


text \<open>A scan that starts behind \<open>xs\<close> takes the whole run \<open>ys\<close> of accepted bytes and stops at
  the end of the buffer or at the first byte that is not accepted.\<close>

lemma scan_run:
  "\<forall>b\<in>set ys. ok b \<Longrightarrow> zs = [] \<or> \<not> ok (hd zs) \<Longrightarrow>
   scan ok (xs @ ys @ zs) (length xs) seq = (length xs + length ys, seq @ encode ys)"
proof (induction ys arbitrary: xs seq)
  case Nil
  then show ?case
    by (cases zs) (auto simp: scan.simps [of _ _ "length xs"] nth_append encode_def)
next
  case (Cons y ys)
  have "scan ok (xs @ (y # ys) @ zs) (length xs) seq
      = scan ok ((xs @ [y]) @ ys @ zs) (length (xs @ [y])) (seq @ string_of_byte y)"
    using Cons.prems by (subst scan.simps) (simp add: nth_append)
  also have "\<dots> = (length (xs @ [y]) + length ys, (seq @ string_of_byte y) @ encode ys)"
    using Cons.prems by (intro Cons.IH) auto
  finally show ?case by (simp add: encode_def)
qed

section \<open>The dispatch loop can fail to return\<close>

text \<open>A pass of the loop that leaves the index where it was, whatever the events so far, is
  repeated for ever: the loop has no result.\<close>

lemma peekLoop_no_result:
  assumes "peekLoop d p bb i ev = Some y"
  shows "\<not> (i < length p \<and> (\<forall>ev. \<exists>ev'. dispatch d p bb i False (p ! i) ev = Inr (i, ev')))"
proof (rule peekLoop.raw_induct
    [where P = "\<lambda>d p bb i ev y.
                  \<not> (i < length p
                      \<and> (\<forall>ev. \<exists>ev'. dispatch d p bb i False (p ! i) ev = Inr (i, ev')))",
     OF _ assms], goal_cases)
  case (1 f d p bb i ev y)
  show ?case
  proof
    assume stuck:
      "i < length p \<and> (\<forall>ev. \<exists>ev'. dispatch d p bb i False (p ! i) ev = Inr (i, ev'))"
    then obtain ev' where "dispatch d p bb i False (p ! i) ev = Inr (i, ev')" by blast
    with stuck 1(2) have "f d p bb i ev' = Some y" by simp
    from 1(1) [OF this] stuck show False by simp
  qed
qed

lemma peekLoop_stuck:
  assumes "i < length p" and "\<And>ev. \<exists>ev'. dispatch d p bb i False (p ! i) ev = Inr (i, ev')"
  shows "peekLoop d p bb i ev = None"
  using assms peekLoop_no_result [of d p bb i ev]
  by (cases "peekLoop d p bb i ev") auto

text \<open>
  Claim C4. Decoding a buffer should end with every byte consumed. On the buffer that holds
  the single byte \<^verbatim>\<open>0x80\<close> (a UTF-8 continuation byte, no introducer) the loop of
  \<^verbatim>\<open>peekInput\<close> never ends: no branch of the loop body takes the byte, the index stays 0.
\<close>

theorem decode_continuation_byte_never_returns: "decode demoEnv [0x80] = None"
proof -
  have "dispatch demoEnv [0x80] 1 0 False ([0x80] ! 0) ev = Inr (0, ev)" for ev
    by (simp add: dispatch.simps loopTail_def ctrl_defs RuneStart_def)
  then have "peekLoop demoEnv [0x80] 1 0 [] = None"
    by (intro peekLoop_stuck) auto
  then show ?thesis
    by (simp add: decode_def peekInput_def Peek1_def demoEnv_def)
qed

text \<open>The same happens on the lone byte \<^verbatim>\<open>0xC3\<close>, the first byte of a two-byte rune whose second
  byte has not arrived: the rune loop stops at once, and every pass adds an empty key event
  and leaves the index at 0.\<close>

lemma decode_lone_lead_byte_never_returns: "decode demoEnv [0xC3] = None"
proof -
  have "collectRunes [0xC3] 0 [] = (0, [])"
    by (subst collectRunes.simps) (simp add: seqlen_def)
  then have "dispatch demoEnv [0xC3] 1 0 False ([0xC3] ! 0) ev
               = Inr (0, ev @ [Key (zeroKey\<lparr>Runes := []\<rparr>)])" for ev
    by (simp add: dispatch.simps loopTail_def ctrl_defs RuneStart_def withAlt_def)
  then have "peekLoop demoEnv [0xC3] 1 0 [] = None"
    by (intro peekLoop_stuck) auto
  then show ?thesis
    by (simp add: decode_def peekInput_def Peek1_def demoEnv_def)
qed

text \<open>A second way to lose the count: the 8-bit introducer \<^verbatim>\<open>0x9B\<close> is added to the sequence
  by \<^verbatim>\<open>string(p[i])\<close>, two bytes long, so the two-byte buffer \<^verbatim>\<open>0x9B A\<close> is reported as three
  bytes consumed.\<close>

lemma decode_csi8_overshoot:
  "decode demoEnv [0x9B, 0x41] = Some (Inr (3, [Unknown [0xC2, 0x9B, 0x41]]))"
  by code_simp

section \<open>An unfinished CSI sequence\<close>

lemma isParam_ascii: "isParam b \<Longrightarrow> b < 0x80"
  unfolding isParam_def by (simp add: word_le_nat_alt word_less_nat_alt)

lemma isIntermediate_ascii: "isIntermediate b \<Longrightarrow> b < 0x80"
  unfolding isIntermediate_def by (simp add: word_le_nat_alt word_less_nat_alt)

lemma isIntermediate_not_param: "isIntermediate b \<Longrightarrow> \<not> isParam b"
  unfolding isIntermediate_def isParam_def by (simp add: word_le_nat_alt)

lemma scanIntro_esc:
  "i7 < 0x80 \<Longrightarrow>
   scanIntro i8 i7 (length pre) (pre @ ESC # i7 # rest) = Inr (length pre + 2, [ESC, i7])"
  by (simp add: scanIntro_def nth_append string_of_byte_def ESC_def)

text \<open>
  Claim C1, as the code has it. When \<^verbatim>\<open>parseCsi\<close> has scanned \<^verbatim>\<open>ESC [\<close>, parameter bytes and
  intermediate bytes and the buffer ends there, it does not wait for more input: it
  consumes the whole partial sequence, two bytes and every scanned byte, and reports it,
  as the table's key when the partial sequence is a key of the table (with Alt when the
  Alt flag is set) and as an Unknown event that carries the partial sequence otherwise.
\<close>

theorem parseCsi_unfinished:
  assumes "\<forall>b\<in>set ps. isParam b" and "\<forall>b\<in>set ims. isIntermediate b"
  shows "parseCsi d (length pre) (pre @ [ESC, 0x5B] @ ps @ ims) alt
         = Inr (2 + length ps + length ims, tableOrUnknown d alt ([ESC, 0x5B] @ ps @ ims))"
proof -
  let ?p = "pre @ [ESC, 0x5B] @ ps @ ims"
  have intro: "scanIntro CSI 0x5B (length pre) ?p = Inr (length pre + 2, [ESC, 0x5B])"
    using scanIntro_esc [where ?i8.0 = CSI and ?i7.0 = "0x5B" and pre = pre and rest = "ps @ ims"]
    by simp
  have eps: "encode ps = ps"
    using assms(1) by (intro encode_ascii) (auto dest: isParam_ascii)
  have eims: "encode ims = ims"
    using assms(2) by (intro encode_ascii) (auto dest: isIntermediate_ascii)
  have "ims = [] \<or> \<not> isParam (hd ims)"
    using assms(2) by (cases ims) (auto dest: isIntermediate_not_param)
  with assms(1)
  have "scan isParam ((pre @ [ESC, 0x5B]) @ ps @ ims) (length (pre @ [ESC, 0x5B])) [ESC, 0x5B]
          = (length (pre @ [ESC, 0x5B]) + length ps, [ESC, 0x5B] @ encode ps)"
    by (intro scan_run) auto
  then have s1: "scan isParam ?p (length pre + 2) [ESC, 0x5B]
                   = (length pre + 2 + length ps, [ESC, 0x5B] @ ps)"
    by (simp add: eps)
  have "scan isIntermediate ((pre @ [ESC, 0x5B] @ ps) @ ims @ [])
          (length (pre @ [ESC, 0x5B] @ ps)) ([ESC, 0x5B] @ ps)
          = (length (pre @ [ESC, 0x5B] @ ps) + length ims, ([ESC, 0x5B] @ ps) @ encode ims)"
    using assms(2) by (intro scan_run) auto
  then have s2: "scan isIntermediate ?p (length pre + 2 + length ps) ([ESC, 0x5B] @ ps)
                   = (length ?p, [ESC, 0x5B] @ ps @ ims)"
    by (simp add: eims)
  show ?thesis
    unfolding parseCsi_def intro using s1 s2 by simp
qed

text \<open>The theorem at \<^verbatim>\<open>ESC [ 1 ; $\<close>: five bytes consumed, an Unknown event.\<close>

theorem parseCsi_unfinished_witness:
  "parseCsi demoEnv 0 [0x1B, 0x5B, 0x31, 0x3B, 0x24] False
     = Inr (5, Unknown [0x1B, 0x5B, 0x31, 0x3B, 0x24])"
  using parseCsi_unfinished [of "[0x31, 0x3B]" "[0x24]" demoEnv "[]" False]
  by (simp add: isParam_def isIntermediate_def tableOrUnknown_def demoEnv_def ESC_def)

text \<open>Claim C1 as the specification states it (zero bytes consumed, no Unknown event) fails
  on the buffer \<^verbatim>\<open>ESC [ 1\<close>: the parser and the decoder consume three bytes and report an
  Unknown event.\<close>

theorem parseCsi_unfinished_counterexample:
  "parseCsi demoEnv 0 [0x1B, 0x5B, 0x31] False = Inr (3, Unknown [0x1B, 0x5B, 0x31])
   \<and> decode demoEnv [0x1B, 0x5B, 0x31] = Some (Inr (3, [Unknown [0x1B, 0x5B, 0x31]]))"
  by code_simp

section \<open>A trailing \<^verbatim>\<open>ESC\<close>\<close>



section \<open>\<^verbatim>\<open>ESC\<close> before a single byte\<close>

lemma ascii_RuneStart: "b < 0x80 \<Longrightarrow> RuneStart b"
proof -
  assume "b < 0x80"
  have "b AND 0xC0 \<le> b" by (rule word_and_le2)
  with \<open>b < 0x80\<close> have "b AND 0xC0 < 0x80" by simp
  then show ?thesis by (auto simp: RuneStart_def)
qed

lemma ascii_no_introducer:
  "b < 0x80 \<Longrightarrow> b \<noteq> SS3 \<and> b \<noteq> DCS \<and> b \<noteq> CSI \<and> b \<noteq> OSC \<and> b \<noteq> APC"
  by (auto simp: ctrl_defs)

lemma ascii_rune:
  assumes "b < 0x80" and "\<not> isControl b"
  shows "DecodeRune (b # bs) = (uint b, 1)" and "uint b \<noteq> RuneError" and "\<not> uint b \<le> uint US"
    and "uint b \<noteq> uint DEL" and "uint b \<noteq> uint SP"
  using assms
  by (auto simp: isControl_def word_le_def word_less_def RuneError_def ctrl_defs
        word_uint_eq_iff)

lemma collectRunes_last:
  assumes "b < 0x80" and "\<not> isControl b"
  shows "collectRunes (pre @ [b]) (length pre) rs = (length pre + 1, rs @ [uint b])"
proof -
  have "collectRunes (pre @ [b]) (length pre) rs
          = collectRunes (pre @ [b]) (length pre + 1) (rs @ [uint b])"
    using ascii_rune [OF assms] by (subst collectRunes.simps) simp
  also have "\<dots> = (length pre + 1, rs @ [uint b])"
    by (subst collectRunes.simps) simp
  finally show ?thesis .
qed

lemma loopTail_ascii_last:
  assumes "b < 0x80"
  shows "loopTail d (pre @ [b]) (length pre) alt b ev
           = (length pre + 1, ev @ [Key (withAlt d alt (keyOf d b))])"
proof (cases "isControl b")
  case True
  with assms show ?thesis
    by (simp add: loopTail_def keyOf_def isControl_def string_of_byte_def)
next
  case False
  with assms collectRunes_last [OF assms False, of pre "[]"] show ?thesis
    by (simp add: loopTail_def keyOf_def isControl_def ascii_RuneStart)
qed

lemma peekLoop_done: "length p \<le> i \<Longrightarrow> peekLoop d p bb i ev = Some (Inr (i, ev))"
  by (subst peekLoop.simps) simp

lemma peekLoop_step:
  "i < length p \<Longrightarrow> dispatch d p bb i False (p ! i) ev = Inr (i', ev') \<Longrightarrow>
   peekLoop d p bb i ev = peekLoop d p bb i' ev'"
  by (subst peekLoop.simps) simp

lemma decode_table_miss:
  "p \<noteq> [] \<Longrightarrow> table d p = None \<Longrightarrow> decode d p = peekLoop d p (length p) 0 []"
  by (cases "peekLoop d p (length p) 0 []") (auto simp: decode_def peekInput_def Peek1_def)

lemma decode_table_hit:
  "p \<noteq> [] \<Longrightarrow> table d p = Some k \<Longrightarrow> decode d p = Some (Inr (length p, [Key k]))"
  by (simp add: decode_def peekInput_def Peek1_def)

lemma decode_single_ascii:
  assumes "b < 0x80" and "isControl b \<or> table d [b] = None"
  shows "decode d [b] = Some (Inr (1, [Key (keyOf d b)]))"
proof (cases "table d [b]")
  case (Some k)
  with assms(2) have "isControl b" by auto
  with Some show ?thesis
    using decode_table_hit [of "[b]" d k] by (simp add: keyOf_def lookupKey_def)
next
  case None
  have "dispatch d [b] 1 0 False b [] = Inr (1, [Key (keyOf d b)])"
  proof (cases "b = ESC")
    case True
    then show ?thesis
      by (subst dispatch.simps) (simp add: keyOf_def isControl_def ctrl_defs)
  next
    case False
    with assms(1) ascii_no_introducer [OF assms(1)] loopTail_ascii_last [OF assms(1), of d "[]" False "[]"]
    show ?thesis
      by (subst dispatch.simps) (simp add: withAlt_def)
  qed
  then have "peekLoop d [b] 1 0 [] = peekLoop d [b] 1 1 [Key (keyOf d b)]"
    by (intro peekLoop_step) auto
  then show ?thesis
    using None decode_table_miss [of "[b]" d] by (simp add: peekLoop_done)
qed

lemma decode_esc_ascii:
  assumes "b < 0x80" and "b \<notin> {0x4F, 0x50, 0x5B, 0x5D, 0x5F}" and "table d [ESC, b] = None"
  shows "decode d [ESC, b] = Some (Inr (2, [Key (withAlt d True (keyOf d b))]))"
proof -
  have inner: "dispatch d [ESC, b] 2 1 True b [] = Inr (2, [Key (withAlt d True (keyOf d b))])"
  proof (cases "b = ESC")
    case True
    then show ?thesis
      by (subst dispatch.simps)
         (simp add: keyOf_def isControl_def loopTail_def string_of_byte_def ctrl_defs)
  next
    case False
    with ascii_no_introducer [OF assms(1)] loopTail_ascii_last [OF assms(1), of d "[ESC]" True "[]"]
    show ?thesis
      by (subst dispatch.simps) simp
  qed
  have "dispatch d [ESC, b] 2 0 False ESC [] = dispatch d [ESC, b] 2 1 True b []"
    using assms(2) by (subst dispatch.simps) simp
  with inner have "peekLoop d [ESC, b] 2 0 [] = peekLoop d [ESC, b] 2 2 [Key (withAlt d True (keyOf d b))]"
    by (intro peekLoop_step) auto
  then show ?thesis
    using assms(3) decode_table_miss [of "[ESC, b]" d]
    by (simp add: peekLoop_done numeral_2_eq_2)
qed

text \<open>
  Claim C6, as the code has it. Let \<open>b\<close> be a byte below \<^verbatim>\<open>0x80\<close> other than \<^verbatim>\<open>O\<close>, \<^verbatim>\<open>P\<close>,
  \<^verbatim>\<open>[\<close>, \<^verbatim>\<open>]\<close> and \<^verbatim>\<open>_\<close>, such that the two bytes \<^verbatim>\<open>ESC b\<close> are not a key of the table and,
  when \<open>b\<close> is not a control byte, \<open>b\<close> alone is not a key of the table either. Then the buffer
  \<open>b\<close> decodes to one key event with one byte consumed, and the buffer \<^verbatim>\<open>ESC b\<close> decodes to
  the same key event with the Alt bit added to its modifiers, with two bytes consumed.
\<close>

theorem esc_prefix_is_alt:
  assumes "b < 0x80" and "b \<notin> {0x4F, 0x50, 0x5B, 0x5D, 0x5F}" and "table d [ESC, b] = None"
    and "b \<le> US \<or> b = DEL \<or> b = SP \<or> table d [b] = None"
  shows "\<exists>k. decode d [b] = Some (Inr (1, [Key k]))
           \<and> decode d [ESC, b] = Some (Inr (2, [Key (k\<lparr>Mod := Mod k OR modAlt d\<rparr>)]))"
proof -
  from assms(4) have "isControl b \<or> table d [b] = None" by (auto simp: isControl_def)
  with assms(1) have "decode d [b] = Some (Inr (1, [Key (keyOf d b)]))" by (rule decode_single_ascii)
  moreover have "decode d [ESC, b] = Some (Inr (2, [Key (withAlt d True (keyOf d b))]))"
    using assms(1-3) by (rule decode_esc_ascii)
  ultimately show ?thesis by (auto simp: withAlt_def)
qed

text \<open>The theorem at \<open>b\<close> = \<^verbatim>\<open>a\<close>.\<close>

theorem esc_prefix_is_alt_witness:
  "decode demoEnv [0x61] = Some (Inr (1, [Key (zeroKey\<lparr>Runes := [0x61]\<rparr>)]))
   \<and> decode demoEnv [0x1B, 0x61] = Some (Inr (2, [Key (zeroKey\<lparr>Runes := [0x61], Mod := 2\<rparr>)]))"
proof -
  have "\<exists>k. decode demoEnv [0x61] = Some (Inr (1, [Key k]))
           \<and> decode demoEnv [ESC, 0x61] = Some (Inr (2, [Key (k\<lparr>Mod := Mod k OR modAlt demoEnv\<rparr>)]))"
    by (rule esc_prefix_is_alt) (simp_all add: demoEnv_def ctrl_defs)
  moreover have "decode demoEnv [0x61] = Some (Inr (1, [Key (zeroKey\<lparr>Runes := [0x61]\<rparr>)]))"
    by code_simp
  ultimately show ?thesis
    by (auto simp: demoEnv_def zeroKey_def ESC_def)
qed

text \<open>Claim C6 as the specification states it, for any byte but the five, fails at the
  byte \<^verbatim>\<open>0x8F\<close>: alone and after \<^verbatim>\<open>ESC\<close> it gives an Unknown event, which has no modifiers, and
  the buffer \<^verbatim>\<open>ESC 0x8F\<close> is reported as three bytes consumed.\<close>

theorem esc_prefix_is_alt_counterexample:
  "decode demoEnv [0x8F] = Some (Inr (2, [Unknown [0xC2, 0x8F]]))
   \<and> decode demoEnv [0x1B, 0x8F] = Some (Inr (3, [Unknown [0xC2, 0x8F]]))"
  by code_simp

section \<open>Complete CSI sequences: X10 mouse and Kitty keys\<close>

lemma final_not_param: "0x40 \<le> b \<Longrightarrow> \<not> isParam b"
  by (auto simp: isParam_def word_le_nat_alt)

lemma final_not_intermediate: "0x40 \<le> b \<Longrightarrow> \<not> isIntermediate b"
  by (auto simp: isIntermediate_def word_le_nat_alt)

text \<open>A complete CSI sequence that is not a key of the table goes to the \<^verbatim>\<open>switch\<close>, with the
  index on its final byte.\<close>

lemma parseCsi_complete:
  assumes "\<forall>b\<in>set ps. isParam b" and "0x40 \<le> f" and "f \<le> 0x7E"
    and "table d ([ESC, 0x5B] @ ps @ [f]) = None"
  shows "parseCsi d (length pre) (pre @ [ESC, 0x5B] @ ps @ f # rest) alt
         = csiSwitch d (pre @ [ESC, 0x5B] @ ps @ f # rest) (length pre + 2 + length ps)
             ([ESC, 0x5B] @ ps @ [f])"
proof -
  let ?p = "pre @ [ESC, 0x5B] @ ps @ f # rest"
  have f80: "f < 0x80" using assms(3) by (simp add: word_le_nat_alt word_less_nat_alt)
  have intro: "scanIntro CSI 0x5B (length pre) ?p = Inr (length pre + 2, [ESC, 0x5B])"
    using scanIntro_esc [where ?i8.0 = CSI and ?i7.0 = "0x5B" and pre = pre and rest = "ps @ f # rest"]
    by simp
  have eps: "encode ps = ps"
    using assms(1) by (intro encode_ascii) (auto dest: isParam_ascii)
  have "scan isParam ((pre @ [ESC, 0x5B]) @ ps @ (f # rest)) (length (pre @ [ESC, 0x5B])) [ESC, 0x5B]
          = (length (pre @ [ESC, 0x5B]) + length ps, [ESC, 0x5B] @ encode ps)"
    using assms(1) final_not_param [OF assms(2)] by (intro scan_run) auto
  then have s1: "scan isParam ?p (length pre + 2) [ESC, 0x5B]
                   = (length pre + 2 + length ps, [ESC, 0x5B] @ ps)"
    by (simp add: eps)
  have "scan isIntermediate ((pre @ [ESC, 0x5B] @ ps) @ [] @ (f # rest))
          (length (pre @ [ESC, 0x5B] @ ps)) ([ESC, 0x5B] @ ps)
          = (length (pre @ [ESC, 0x5B] @ ps) + length ([] :: byte list), ([ESC, 0x5B] @ ps) @ encode [])"
    using final_not_intermediate [OF assms(2)] by (intro scan_run) auto
  then have s2: "scan isIntermediate ?p (length pre + 2 + length ps) ([ESC, 0x5B] @ ps)
                   = (length pre + 2 + length ps, [ESC, 0x5B] @ ps)"
    by (simp add: encode_def)
  have nth: "?p ! (length pre + 2 + length ps) = f"
    by (simp add: nth_append)
  have fin: "\<not> (f < 0x40) \<and> \<not> (0x7E < f)" using assms(2,3) by auto
  show ?thesis
    unfolding parseCsi_def intro using s1 s2 nth fin f80 assms(4)
    by (simp add: string_of_byte_def)
qed

text \<open>After \<^verbatim>\<open>ESC [ M\<close> and three more bytes, six bytes are consumed, and the mouse decoder is
  given \<^verbatim>\<open>p[i+1:i+3]\<close> after the sequence: the first two of the three bytes.\<close>

lemma parseCsi_x10:
  assumes "table d [ESC, 0x5B, 0x4D] = None"
  shows "parseCsi d 0 [ESC, 0x5B, 0x4D, a, b, c] alt
           = Inr (6, parseX10MouseEvent d [ESC, 0x5B, 0x4D, a, b])"
  using parseCsi_complete [of "[]" "0x4D" d "[]" "[a, b, c]" alt] assms
  by (simp add: csiSwitch_def)

text \<open>
  Claim C5. The six bytes \<^verbatim>\<open>ESC [ M 0x20 0x0A 0x14\<close> are consumed, but the X10 decoder does not
  receive the three trailing bytes: it is called on \<^verbatim>\<open>ESC [ M 0x20 0x0A\<close>, without the row
  byte \<^verbatim>\<open>0x14\<close>. (The decoder of this driver hands back its argument.)
\<close>

theorem x10_third_byte_not_passed:
  "decode demoEnv [0x1B, 0x5B, 0x4D, 0x20, 0x0A, 0x14]
     = Some (Inr (6, [Mouse [0x1B, 0x5B, 0x4D, 0x20, 0x0A]]))"
  by code_simp







lemma sint_of_large:
  fixes m :: u64
  assumes "2 ^ 63 \<le> uint m"
  shows "sint m < 0"
proof (rule ccontr)
  assume "\<not> sint m < 0"
  then have nn: "0 \<le> sint m" by simp
  have lt: "sint m < 2 ^ 63" using sint_lt [of m] by simp
  have "uint m = take_bit 64 (sint m)" using uint_sint [of m] by simp
  also have "\<dots> = sint m" using nn lt by (simp add: take_bit_int_eq_self)
  finally show False using assms lt by simp
qed




text \<open>Claim C7 as the specification states it, for every first sub-value greater than 1,
  fails at the sub-value \<open>2^63 + 2\<close>, in \<^verbatim>\<open>ESC [ 9 7 ; 9223372036854775810 u\<close>: as an \<^verbatim>\<open>int\<close> it is
  negative, and the modifiers stay empty, where \<^verbatim>\<open>fromKittyMod\<close> of the value minus 1 (here the
  identity) is not.\<close>

theorem kitty_modifiers_counterexample:
  "parseCsi hugeEnv 0
     [0x1B, 0x5B, 0x39, 0x37, 0x3B, 0x39, 0x32, 0x32, 0x33, 0x33, 0x37, 0x32, 0x30, 0x33, 0x36,
      0x38, 0x35, 0x34, 0x37, 0x37, 0x35, 0x38, 0x31, 0x30, 0x75] False
     = Inr (25, Key (zeroKey\<lparr>Runes := [97]\<rparr>))
   \<and> Mod (zeroKey\<lparr>Runes := [97]\<rparr>) \<noteq> fromKittyMod hugeEnv (9223372036854775810 - 1)"
proof -
  let ?ps = "[0x39, 0x37, 0x3B, 0x39, 0x32, 0x32, 0x33, 0x33, 0x37, 0x32, 0x30, 0x33, 0x36,
      0x38, 0x35, 0x34, 0x37, 0x37, 0x35, 0x38, 0x31, 0x30] :: byte list"
  have neg: "\<not> 1 < sint (9223372036854775810 :: u64)"
    using sint_of_large [of "9223372036854775810 :: u64"] by simp
  have "parseCsi hugeEnv (length ([] :: byte list)) ([] @ [ESC, 0x5B] @ ?ps @ 0x75 # []) False
          = csiSwitch hugeEnv ([] @ [ESC, 0x5B] @ ?ps @ 0x75 # []) (length ([] :: byte list) + 2 + length ?ps)
              ([ESC, 0x5B] @ ?ps @ [0x75])"
    by (rule parseCsi_complete) (simp_all add: isParam_def hugeEnv_def demoEnv_def ESC_def)
  also have "\<dots> = Inr (25, Key (zeroKey\<lparr>Runes := [97]\<rparr>))"
    using neg
    by (simp add: csiSwitch_def kitty_def kittyCode_def kittyMod_def kittyBase_def hugeEnv_def
        demoEnv_def rune32_def ValidRune_def ESC_def)
  finally have "parseCsi hugeEnv 0
     [0x1B, 0x5B, 0x39, 0x37, 0x3B, 0x39, 0x32, 0x32, 0x33, 0x33, 0x37, 0x32, 0x30, 0x33, 0x36,
      0x38, 0x35, 0x34, 0x37, 0x37, 0x35, 0x38, 0x31, 0x30, 0x75] False
     = Inr (25, Key (zeroKey\<lparr>Runes := [97]\<rparr>))"
    by (simp add: ESC_def)
  moreover have "Mod (zeroKey\<lparr>Runes := [97]\<rparr>) \<noteq> fromKittyMod hugeEnv (9223372036854775810 - 1)"
    by (simp add: zeroKey_def hugeEnv_def demoEnv_def)
  ultimately show ?thesis by simp
qed

section \<open>OSC colour replies\<close>



section \<open>\<^verbatim>\<open>PeekInput\<close> and \<^verbatim>\<open>ReadInput\<close>\<close>








section \<open>Bracketed paste in \<^verbatim>\<open>readEvents\<close>\<close>








lemma readStep_pasting:
  assumes "\<not> isPasteEnd (snd (ParseSequence P (drop i (take n dbuf))))"
  shows "readStep P dbuf n i (Some acc) e = Inr (i + 1, Some (acc @ [dbuf ! i]), e)"
  using assms by (cases "ParseSequence P (drop i (take n dbuf))") (simp add: readStep_def)




text \<open>
  Claim C3. While the driver is pasting, the bytes of a read should go to the paste buffer
  and give no event. The table lookup at the head of \<^verbatim>\<open>readEvents\<close> comes before the test of
  the paste buffer: when the bytes read are \<^verbatim>\<open>ESC [ A\<close>, a key of the table, a pasting driver
  reports the key event and leaves its paste buffer empty. (In the loop, lemma
  \<open>readStep_pasting\<close>, every byte that does not start a paste-end marker goes to the buffer.)
\<close>

theorem table_key_while_pasting:
  "readEvents demoParser pasting (Some [0x1B, 0x5B, 0x41])
     = Some (Inr [KeyDownEvent upKey], \<lparr>paste = Some [], buf = [0x1B, 0x5B, 0x41] @ replicate 253 0\<rparr>)"
  by code_simp

end
